theory Spec2Isabelle
  imports Main "HOL-Library.Sublist" "HOL-Library.Signed_Division"
begin

section \<open>Python values\<close>

text \<open>
  A Python \<open>str\<close> is a sequence of Unicode code points, so \<open>len\<close> is \<open>length\<close>.
  ASCII literals of the source are written with \<open>py\<close>.
\<close>

type_synonym str = "nat list"

definition py :: "string \<Rightarrow> str" where
  "py s = map of_char s"

text \<open>
  What \<open>response.json()\<close> can deliver. \<open>JNull\<close> is Python's \<open>None\<close>; a dict is an
  association list whose first binding of a key is the one in force. Numbers are integers.
\<close>

datatype json =
    JNull
  | JBool bool
  | JNum int
  | JStr str
  | JList "json list"
  | JObj "(str \<times> json) list"

datatype exn =
    RequestException
  | JSONDecodeError
  | AttributeError
  | KeyError
  | IndexError
  | ValueError str
  | Exception str

text \<open>Truthiness, as \<open>if ai_response:\<close> tests it.\<close>

fun truthy :: "json \<Rightarrow> bool" where
  "truthy JNull = False"
| "truthy (JBool b) = b"
| "truthy (JNum n) = (n \<noteq> 0)"
| "truthy (JStr s) = (s \<noteq> [])"
| "truthy (JList xs) = (xs \<noteq> [])"
| "truthy (JObj kvs) = (kvs \<noteq> [])"

text \<open>\<open>x.get(key, default)\<close>: only a dict has the method.\<close>

fun dict_get :: "json \<Rightarrow> str \<Rightarrow> json \<Rightarrow> exn + json" where
  "dict_get (JObj kvs) k d = Inr (case map_of kvs k of None \<Rightarrow> d | Some v \<Rightarrow> v)"
| "dict_get _ k d = Inl AttributeError"

section \<open>The inference client: \<open>call_huggingface_api\<close>\<close>

text \<open>
  \<open>NotesAIService.call_huggingface_api\<close> and \<open>QuizAIService.call_huggingface_api\<close> have the
  same body up to the token budget in the payload. The endpoint is an oracle: \<open>http k\<close> is
  what the \<open>k\<close>-th \<open>requests.post\<close> of the call does (counted from 0), either an exception
  or a response with its status code and the outcome of \<open>response.json()\<close>.
  \<open>max_retries\<close> and \<open>delay\<close> are non-negative (\<open>range\<close> of a negative bound is empty and
  \<open>time.sleep\<close> refuses a negative argument; every caller uses the defaults 3 and 1).
  The API key is taken to be configured, so that building the headers does not fail.
  What the call does besides returning is recorded as a list of events: the requests sent
  and the sleeps taken. The diagnostic \<open>print\<close> lines are not recorded.
\<close>

datatype reply =
    Fails exn
  | Response int "exn + json"

datatype event =
    Post str
  | Sleep nat

type_synonym 'a run = "event list \<times> (exn + 'a)"

definition after :: "event list \<Rightarrow> 'a run \<Rightarrow> 'a run" where
  "after evs r = (evs @ fst r, snd r)"

text \<open>Lines 79-82: the generated text of a 200 response.\<close>

definition generated_text :: "json \<Rightarrow> exn + json" where
  "generated_text result =
     (case result of
        JList (x # xs) \<Rightarrow> dict_get x (py ''generated_text'') (JStr [])
      | _ \<Rightarrow> dict_get result (py ''generated_text'') (JStr []))"

text \<open>
  The \<open>for attempt in range(max_retries)\<close> loop, from iteration \<open>attempt\<close> on. The
  \<open>except\<close> clause covers the whole body of the \<open>try\<close>, so a failure of
  \<open>response.json()\<close> or of \<open>.get\<close> is handled like a failure of the request.
\<close>

function attempts :: "(nat \<Rightarrow> reply) \<Rightarrow> str \<Rightarrow> nat \<Rightarrow> nat \<Rightarrow> nat \<Rightarrow> json run" where
  "attempts http prompt max_retries delay attempt =
     (if attempt < max_retries then
        (let handler = (\<lambda>e.
               if attempt = max_retries - 1 then ([Post prompt], Inl e)
               else after [Post prompt, Sleep delay]
                      (attempts http prompt max_retries delay (attempt + 1)))
         in case http attempt of
              Fails e \<Rightarrow> handler e
            | Response status_code body \<Rightarrow>
                if status_code = 503 then
                  after [Post prompt, Sleep (delay * (attempt + 1))]
                    (attempts http prompt max_retries delay (attempt + 1))
                else if status_code = 200 then
                  (case body of
                     Inl e \<Rightarrow> handler e
                   | Inr result \<Rightarrow>
                       (case generated_text result of
                          Inl e \<Rightarrow> handler e
                        | Inr text \<Rightarrow> ([Post prompt], Inr text)))
                else ([Post prompt], Inr JNull))
      else ([], Inr JNull))"
  by pat_completeness auto
termination
  by (relation "measure (\<lambda>(http, prompt, max_retries, delay, attempt). max_retries - attempt)")
     auto

declare attempts.simps [simp del]

definition call_huggingface_api :: "(nat \<Rightarrow> reply) \<Rightarrow> str \<Rightarrow> nat \<Rightarrow> nat \<Rightarrow> json run" where
  "call_huggingface_api http prompt max_retries delay = attempts http prompt max_retries delay 0"

text \<open>The number of requests sent and the sleeps taken, read off the events.\<close>

definition posts :: "event list \<Rightarrow> nat" where
  "posts evs = length (filter (\<lambda>e. case e of Post p \<Rightarrow> True | _ \<Rightarrow> False) evs)"

definition sleeps :: "event list \<Rightarrow> nat list" where
  "sleeps evs = concat (map (\<lambda>e. case e of Sleep d \<Rightarrow> [d] | _ \<Rightarrow> []) evs)"

section \<open>Strings\<close>

text \<open>
  The Unicode character database belongs to the Python runtime, not to the repository:
  which code points are whitespace (\<open>str.strip\<close>, the regular expression class \<open>\s\<close>),
  which are decimal digits (the class \<open>\d\<close>), what \<open>str.lower\<close> and \<open>repr\<close> return.
  The model takes them as a parameter, so every theorem holds for every such table.
  \<open>ascii\<close> is one such table, used in the examples: it is the runtime's on ASCII
  text, its \<open>repr\<close> on strings without quotes, backslashes and control characters.
\<close>

record unicode =
  isspace :: "nat \<Rightarrow> bool"
  isdecimal :: "nat \<Rightarrow> bool"
  lower :: "str \<Rightarrow> str"
  repr :: "str \<Rightarrow> str"

definition ascii :: unicode where
  "ascii =
     \<lparr> isspace = (\<lambda>c. (9 \<le> c \<and> c \<le> 13) \<or> (28 \<le> c \<and> c \<le> 32)),
       isdecimal = (\<lambda>c. 48 \<le> c \<and> c \<le> 57),
       lower = map (\<lambda>c. if 65 \<le> c \<and> c \<le> 90 then c + 32 else c),
       repr = (\<lambda>s. [39] @ s @ [39]) \<rparr>"

abbreviation NL :: nat where "NL \<equiv> 10"
abbreviation SPACE :: nat where "SPACE \<equiv> 32"
abbreviation STAR :: nat where "STAR \<equiv> 42"
abbreviation DASH :: nat where "DASH \<equiv> 45"
abbreviation DOT :: nat where "DOT \<equiv> 46"
abbreviation QUESTION_MARK :: nat where "QUESTION_MARK \<equiv> 63"
abbreviation BULLET :: nat where "BULLET \<equiv> 8226"

text \<open>\<open>s.split(c)\<close> for a separator of one character: never the empty list.\<close>

fun split_on :: "nat \<Rightarrow> str \<Rightarrow> str list" where
  "split_on c [] = [[]]"
| "split_on c (x # xs) =
     (if x = c then [] # split_on c xs
      else (case split_on c xs of
              [] \<Rightarrow> [[x]]
            | w # ws \<Rightarrow> (x # w) # ws))"

definition strip :: "unicode \<Rightarrow> str \<Rightarrow> str" where
  "strip U s = rev (dropWhile (isspace U) (rev (dropWhile (isspace U) s)))"

text \<open>\<open>sep.join(xs)\<close>\<close>

fun join :: "str \<Rightarrow> str list \<Rightarrow> str" where
  "join sep [] = []"
| "join sep [x] = x"
| "join sep (x # y # ys) = x @ sep @ join sep (y # ys)"

text \<open>\<open>kw in s\<close> for strings: \<open>kw\<close> occurs in \<open>s\<close> as a contiguous run.\<close>

fun isin :: "str \<Rightarrow> str \<Rightarrow> bool" where
  "isin kw [] = (kw = [])"
| "isin kw (c # cs) = (prefix kw (c # cs) \<or> isin kw cs)"

text \<open>\<open>str(n)\<close> for an integer.\<close>

function str_nat :: "nat \<Rightarrow> str" where
  "str_nat n = (if n < 10 then [48 + n] else str_nat (n div 10) @ [48 + n mod 10])"
  by pat_completeness auto
termination
  by (relation "measure id") auto

declare str_nat.simps [simp del]

definition str_int :: "int \<Rightarrow> str" where
  "str_int i = (if i < 0 then DASH # str_nat (nat (- i)) else str_nat (nat i))"

text \<open>
  \<open>re.match(r'^\d+\.', line)\<close>: one or more digits, then a full stop, at the start of the
  line. \<open>digits_then_dot\<close> is the rest of the match once a first digit is consumed.
\<close>

fun digits_then_dot :: "unicode \<Rightarrow> str \<Rightarrow> bool" where
  "digits_then_dot U [] = False"
| "digits_then_dot U (c # cs) = (c = DOT \<or> (isdecimal U c \<and> digits_then_dot U cs))"

fun re_match_numbered :: "unicode \<Rightarrow> str \<Rightarrow> bool" where
  "re_match_numbered U [] = False"
| "re_match_numbered U (c # cs) = (isdecimal U c \<and> digits_then_dot U cs)"

text \<open>
  \<open>re.sub(r'^[\<bullet>\-*\d\.]\s*', '', line)\<close>: one leading character of the class, and the
  whitespace after it, are removed; a line that starts otherwise is unchanged.
\<close>

fun re_sub_marker :: "unicode \<Rightarrow> str \<Rightarrow> str" where
  "re_sub_marker U [] = []"
| "re_sub_marker U (c # cs) =
     (if c = BULLET \<or> c = DASH \<or> c = STAR \<or> isdecimal U c \<or> c = DOT
      then dropWhile (isspace U) cs
      else c # cs)"

section \<open>The notes pipeline\<close>

subsection \<open>\<open>extract_section\<close>\<close>

text \<open>
  The inner loop \<open>for i, line in enumerate(lines)\<close> for one keyword: \<open>rest\<close> are the lines
  after \<open>line\<close>, of which \<open>range(i + 1, min(i + 5, len(lines)))\<close> reads the first four.
\<close>

fun scan_lines :: "unicode \<Rightarrow> str \<Rightarrow> str list \<Rightarrow> str option" where
  "scan_lines U keyword [] = None"
| "scan_lines U keyword (line # rest) =
     (if isin keyword (lower U line) \<and> length (strip U line) > 0 then
        (let section_text = filter (\<lambda>l. l \<noteq> []) (map (strip U) (take 4 rest))
         in if section_text \<noteq> [] then Some (join [SPACE] (take 3 section_text))
            else scan_lines U keyword rest)
      else scan_lines U keyword rest)"

fun scan_keywords :: "unicode \<Rightarrow> str list \<Rightarrow> str list \<Rightarrow> str option" where
  "scan_keywords U [] lines = None"
| "scan_keywords U (keyword # keywords) lines =
     (case scan_lines U keyword lines of
        Some found \<Rightarrow> Some found
      | None \<Rightarrow> scan_keywords U keywords lines)"

definition extract_section :: "unicode \<Rightarrow> str \<Rightarrow> str list \<Rightarrow> nat \<Rightarrow> str" where
  "extract_section U text keywords min_sentences =
     (case scan_keywords U keywords (split_on NL text) of
        Some found \<Rightarrow> found
      | None \<Rightarrow>
          (let sentences = take (min_sentences + 1) (split_on DOT text)
           in strip U (join [DOT, SPACE] sentences)))"

subsection \<open>\<open>extract_bullet_points\<close> and \<open>extract_questions\<close>\<close>

definition starts_with_marker :: "unicode \<Rightarrow> str \<Rightarrow> bool" where
  "starts_with_marker U line =
     (prefix [BULLET] line \<or> prefix [DASH] line \<or> prefix [STAR] line \<or> re_match_numbered U line)"

text \<open>The \<open>for line in lines\<close> loop of \<open>extract_bullet_points\<close>: the points appended.\<close>

fun bullet_lines :: "unicode \<Rightarrow> str list \<Rightarrow> str list" where
  "bullet_lines U [] = []"
| "bullet_lines U (l # ls) =
     (let line = strip U l in
      if starts_with_marker U line then
        (let clean_point = re_sub_marker U line
         in if clean_point \<noteq> [] \<and> length clean_point > 10
            then clean_point # bullet_lines U ls
            else bullet_lines U ls)
      else bullet_lines U ls)"

fun key_sentences :: "unicode \<Rightarrow> str list \<Rightarrow> str list" where
  "key_sentences U [] = []"
| "key_sentences U (sentence # sentences) =
     (if length (strip U sentence) > 20
      then strip U sentence # key_sentences U sentences
      else key_sentences U sentences)"

definition extract_bullet_points :: "unicode \<Rightarrow> str \<Rightarrow> str list" where
  "extract_bullet_points U text =
     (let points = bullet_lines U (split_on NL text);
          points = (if points = [] then key_sentences U (take 5 (split_on DOT text)) else points)
      in take 8 points)"

fun question_lines :: "unicode \<Rightarrow> str list \<Rightarrow> str list" where
  "question_lines U [] = []"
| "question_lines U (l # ls) =
     (let line = strip U l in
      if suffix [QUESTION_MARK] line \<and> length line > 10
      then line # question_lines U ls
      else question_lines U ls)"

definition extract_questions :: "unicode \<Rightarrow> str \<Rightarrow> str list" where
  "extract_questions U text =
     (let questions = question_lines U (split_on NL text);
          questions = (if questions = [] then
                         [py ''What are the main topics covered in this content?'',
                          py ''How can this knowledge be practically applied?'',
                          py ''What are the key concepts to remember?'',
                          py ''What questions remain unanswered?'']
                       else questions)
      in take 10 questions)"

subsection \<open>\<open>extract_difficulty\<close> and \<open>generate_tags\<close>\<close>

definition extract_difficulty :: "unicode \<Rightarrow> str \<Rightarrow> str" where
  "extract_difficulty U text =
     (let text_lower = lower U text in
      if list_ex (\<lambda>word. isin word text_lower)
           [py ''advanced'', py ''complex'', py ''difficult'', py ''expert'']
      then py ''Advanced''
      else if list_ex (\<lambda>word. isin word text_lower)
           [py ''intermediate'', py ''moderate'', py ''medium'']
      then py ''Intermediate''
      else py ''Beginner'')"

definition common_academic_terms :: "str list" where
  "common_academic_terms =
     [py ''science'', py ''mathematics'', py ''history'', py ''literature'', py ''technology'',
      py ''business'', py ''economics'', py ''psychology'', py ''medicine'', py ''engineering'',
      py ''art'', py ''philosophy'', py ''education'', py ''research'', py ''analysis'']"

text \<open>The \<open>for term in common_academic_terms\<close> loop with its \<open>break\<close>.\<close>

fun add_terms :: "str \<Rightarrow> str list \<Rightarrow> str list \<Rightarrow> str list" where
  "add_terms text_lower tags [] = tags"
| "add_terms text_lower tags (term # terms) =
     (if isin term text_lower then
        (let tags = tags @ [term]
         in if length tags \<ge> 6 then tags else add_terms text_lower tags terms)
      else add_terms text_lower tags terms)"

definition generate_tags :: "unicode \<Rightarrow> str \<Rightarrow> str \<Rightarrow> str list" where
  "generate_tags U text source_type =
     add_terms (lower U text) [source_type, py ''study'', py ''notes''] common_academic_terms"

subsection \<open>\<open>create_fallback_notes\<close>, \<open>parse_ai_response\<close>, \<open>generate_notes_from_text\<close>\<close>

text \<open>The dict every path of the pipeline returns.\<close>

record structured_notes =
  summary :: str
  content :: str
  key_points :: "str list"
  questions :: "str list"
  difficulty_level :: str
  estimated_read_time :: nat
  tags :: "str list"

definition create_fallback_notes :: "str \<Rightarrow> str \<Rightarrow> str \<Rightarrow> structured_notes" where
  "create_fallback_notes text title source_type =
     \<lparr> summary = py ''Summary of '' @ title @ py '': This content covers important topics that require further study. The material appears to contain valuable information for learning and reference.'',
       content = py ''Detailed Notes for '' @ title @ py '':\<newline>\<newline>'' @ take 2000 text
                   @ (if length text > 2000 then py ''...'' else []),
       key_points =
         [py ''This content contains important information'',
          py ''Further analysis and study is recommended'',
          py ''Key concepts should be reviewed carefully''],
       questions =
         [py ''What are the main topics covered?'',
          py ''How can this knowledge be applied?'',
          py ''What are the key takeaways?'',
          py ''What additional research might be helpful?''],
       difficulty_level = py ''Intermediate'',
       estimated_read_time = max 1 (length text div 250),
       tags = [py ''study'', py ''notes'', source_type] \<rparr>"

text \<open>
  The body of the \<open>try\<close> of \<open>parse_ai_response\<close>. The response is whatever the client
  returned; \<open>text.lower()\<close>, the first thing \<open>extract_section\<close> does, raises on anything
  but a string. On strings nothing in the body raises.
\<close>

definition parse_body :: "unicode \<Rightarrow> json \<Rightarrow> str \<Rightarrow> str \<Rightarrow> str \<Rightarrow> exn + structured_notes" where
  "parse_body U ai_response original_text title source_type =
     (case ai_response of
        JStr response \<Rightarrow>
          Inr \<lparr> summary = extract_section U response [py ''summary'', py ''overview''] 2,
                content = py ''Detailed Notes for '' @ title @ py '':\<newline>\<newline>'' @ response,
                key_points = extract_bullet_points U response,
                questions = extract_questions U response,
                difficulty_level = extract_difficulty U response,
                estimated_read_time = max 1 (length original_text div 250),
                tags = generate_tags U original_text source_type \<rparr>
      | _ \<Rightarrow> Inl AttributeError)"

definition parse_ai_response :: "unicode \<Rightarrow> json \<Rightarrow> str \<Rightarrow> str \<Rightarrow> str \<Rightarrow> structured_notes" where
  "parse_ai_response U ai_response original_text title source_type =
     (case parse_body U ai_response original_text title source_type of
        Inr parsed \<Rightarrow> parsed
      | Inl e \<Rightarrow> create_fallback_notes original_text title source_type)"

definition notes_prompt :: "str \<Rightarrow> str \<Rightarrow> str \<Rightarrow> str" where
  "notes_prompt text title source_type =
     py ''Create comprehensive study notes from this '' @ source_type
     @ py '' content.\<newline>\<newline>Title: '' @ title
     @ py ''\<newline>\<newline>Content: '' @ take 3000 text
     @ py ''\<newline>\<newline>Please provide structured notes with:\<newline>1. Summary (2-3 paragraphs)\<newline>2. Key points (bullet format)\<newline>3. Important concepts\<newline>4. Study questions (5-10)\<newline>5. Difficulty level\<newline>6. Reading time estimate\<newline>\<newline>Format as organized text with clear sections.''"

text \<open>The body of the \<open>try\<close> of \<open>generate_notes_from_text\<close>, lines 99-123.\<close>

definition generate_notes_body ::
  "unicode \<Rightarrow> (nat \<Rightarrow> reply) \<Rightarrow> str \<Rightarrow> str \<Rightarrow> str \<Rightarrow> structured_notes run" where
  "generate_notes_body U http text title source_type =
     (let prompt = notes_prompt text title source_type;
          (evs, r) = call_huggingface_api http prompt 3 1
      in case r of
           Inl e \<Rightarrow> (evs, Inl e)
         | Inr ai_response \<Rightarrow>
             if truthy ai_response
             then (evs, Inr (parse_ai_response U ai_response text title source_type))
             else (evs, Inl (Exception (py ''Failed to get response from Hugging Face API''))))"

text \<open>The \<open>except Exception\<close> clause, lines 125-128, around it.\<close>

definition generate_notes_from_text ::
  "unicode \<Rightarrow> (nat \<Rightarrow> reply) \<Rightarrow> str \<Rightarrow> str \<Rightarrow> str \<Rightarrow> structured_notes run" where
  "generate_notes_from_text U http text title source_type =
     (case generate_notes_body U http text title source_type of
        (evs, Inl e) \<Rightarrow> (evs, Inr (create_fallback_notes text title source_type))
      | (evs, Inr result) \<Rightarrow> (evs, Inr result))"

section \<open>The YouTube entry point\<close>

text \<open>
  \<open>urlparse\<close> and \<open>parse_qs\<close> are the standard library's. The model starts from what they
  return: the host name (\<open>None\<close> when the URL has none), the path, and the dict that
  \<open>parse_qs\<close> makes of the query.
\<close>

record parsed_url =
  hostname :: "str option"
  path :: str
  query :: "(str \<times> str list) list"

abbreviation SLASH :: nat where "SLASH \<equiv> 47"

text \<open>\<open>parsed_url.path.split('/')[2]\<close>\<close>

definition third_segment :: "str \<Rightarrow> exn + str option" where
  "third_segment p =
     (case drop 2 (split_on SLASH p) of
        [] \<Rightarrow> Inl IndexError
      | x # xs \<Rightarrow> Inr (Some x))"

definition extract_youtube_video_id :: "parsed_url \<Rightarrow> exn + str option" where
  "extract_youtube_video_id url =
     (if hostname url = Some (py ''youtu.be'') then Inr (Some (drop 1 (path url)))
      else if hostname url = Some (py ''www.youtube.com'') \<or> hostname url = Some (py ''youtube.com'')
      then
        (if path url = py ''/watch'' then
           (case map_of (query url) (py ''v'') of
              None \<Rightarrow> Inl KeyError
            | Some [] \<Rightarrow> Inl IndexError
            | Some (v # vs) \<Rightarrow> Inr (Some v))
         else if take 7 (path url) = py ''/embed/'' then third_segment (path url)
         else if take 3 (path url) = py ''/v/'' then third_segment (path url)
         else Inr None)
      else Inr None)"

definition get_youtube_transcript :: "str \<Rightarrow> str" where
  "get_youtube_transcript video_id =
     py ''Mock transcript for video '' @ video_id
     @ py ''. This would contain the actual video content in a real implementation.''"

definition process_youtube_url ::
  "unicode \<Rightarrow> (nat \<Rightarrow> reply) \<Rightarrow> parsed_url \<Rightarrow> str \<Rightarrow> structured_notes run" where
  "process_youtube_url U http url title =
     (case extract_youtube_video_id url of
        Inl e \<Rightarrow> ([], Inl e)
      | Inr None \<Rightarrow> ([], Inl (ValueError (py ''Invalid YouTube URL'')))
      | Inr (Some video_id) \<Rightarrow>
          if video_id = [] then ([], Inl (ValueError (py ''Invalid YouTube URL'')))
          else
            (let transcript = get_youtube_transcript video_id;
                 title = (if title = [] then py ''YouTube Video Notes - '' @ video_id else title)
             in generate_notes_from_text U http transcript title (py ''YouTube video'')))"

definition process_text_input ::
  "unicode \<Rightarrow> (nat \<Rightarrow> reply) \<Rightarrow> str \<Rightarrow> str \<Rightarrow> structured_notes run" where
  "process_text_input U http text title =
     generate_notes_from_text U http text title (py ''text input'')"

section \<open>Quizzes\<close>

record question =
  question_text :: str
  question_type :: str
  options :: "str list"
  correct_answers :: "int list"
  explanation :: str
  hint :: str
  points :: nat
  question_difficulty_level :: str

subsection \<open>\<open>_generate_fallback_questions\<close>\<close>

text \<open>The three \<open>question_templates\<close>: text, type and options of each.\<close>

definition question_templates :: "str \<Rightarrow> (str \<times> str \<times> str list) list" where
  "question_templates topic =
     [(py ''What is the main principle behind '' @ topic @ py ''?'',
       py ''multiple_choice'',
       [py ''A) Core concept of '' @ topic,
        py ''B) Basic principle of '' @ topic,
        py ''C) Advanced theory of '' @ topic,
        py ''D) Unrelated concept'']),
      (py ''Which statement about '' @ topic @ py '' is correct?'',
       py ''multiple_choice'',
       [py ''A) '' @ topic @ py '' involves specific processes'',
        py ''B) '' @ topic @ py '' is completely theoretical'',
        py ''C) '' @ topic @ py '' has no practical applications'',
        py ''D) '' @ topic @ py '' is outdated'']),
      (topic @ py '' is essential for understanding the subject.'',
       py ''true_false'',
       [py ''True'', py ''False''])]"

text \<open>
  \<open>for i in range(min(question_count, len(question_templates)))\<close>; the index
  \<open>i % len(question_templates)\<close> is always within the three templates.
\<close>

definition generate_fallback_questions :: "str \<Rightarrow> int \<Rightarrow> str \<Rightarrow> question list" where
  "generate_fallback_questions topic question_count difficulty =
     map (\<lambda>i.
            (let template = question_templates topic ! (i mod length (question_templates topic))
             in \<lparr> question_text = fst template,
                  question_type = fst (snd template),
                  options = snd (snd template),
                  correct_answers = [0],
                  explanation = py ''This question tests understanding of '' @ topic @ py '' concepts.'',
                  hint = py ''Think about the fundamental principles of '' @ topic @ py ''.'',
                  points = 1,
                  question_difficulty_level = difficulty \<rparr>))
         [0 ..< nat (min question_count (int (length (question_templates topic))))]"

subsection \<open>\<open>_parse_questions_from_response\<close>\<close>

definition determine_question_type :: "unicode \<Rightarrow> str \<Rightarrow> str list \<Rightarrow> str" where
  "determine_question_type U question_text' question_types =
     (let question_lower = lower U question_text' in
      if py ''true_false'' \<in> set question_types \<and>
           (isin (py ''true or false'') question_lower \<or>
            isin (py ''is it true'') question_lower \<or>
            isin (py ''correct or incorrect'') question_lower)
      then py ''true_false''
      else if py ''short_answer'' \<in> set question_types \<and>
           (isin (py ''what is'') question_lower \<or>
            isin (py ''define'') question_lower \<or>
            isin (py ''name'') question_lower)
      then py ''short_answer''
      else py ''multiple_choice'')"

definition generate_mc_options :: "str \<Rightarrow> str \<Rightarrow> str list" where
  "generate_mc_options question_text' topic =
     [py ''A) Primary concept of '' @ topic,
      py ''B) Secondary aspect of '' @ topic,
      py ''C) Related but different concept'',
      py ''D) Unrelated option'']"

text \<open>Lines 120-139: the dict built for a line that looks like a question.\<close>

definition new_question :: "unicode \<Rightarrow> str \<Rightarrow> str \<Rightarrow> str \<Rightarrow> str list \<Rightarrow> question" where
  "new_question U line topic difficulty question_types =
     (let q_type = determine_question_type U line question_types
      in \<lparr> question_text = line,
           question_type = q_type,
           options = (if q_type = py ''multiple_choice'' then generate_mc_options line topic
                      else if q_type = py ''true_false'' then [py ''True'', py ''False'']
                      else []),
           correct_answers = (if q_type \<noteq> py ''multiple_choice'' \<and> q_type = py ''true_false''
                              then [if isin (py ''true'') (lower U line) then 0 else 1]
                              else [0]),
           explanation = py ''This question tests understanding of '' @ topic @ py ''.'',
           hint = py ''Consider the key concepts of '' @ topic @ py ''.'',
           points = 1,
           question_difficulty_level = difficulty \<rparr>)"

text \<open>
  The \<open>for line in lines\<close> loop, lines 106-139, on the state
  \<open>(questions_data, current_question, question_num)\<close>; the \<open>break\<close> returns the state.
\<close>

fun parse_lines ::
  "unicode \<Rightarrow> str \<Rightarrow> str \<Rightarrow> int \<Rightarrow> str list \<Rightarrow> str list \<Rightarrow>
   question list \<times> question option \<times> int \<Rightarrow> question list \<times> question option \<times> int" where
  "parse_lines U topic difficulty question_count question_types [] st = st"
| "parse_lines U topic difficulty question_count question_types (l # ls)
     (questions_data, current_question, question_num) =
     (let line = strip U l in
      if line = [] then
        parse_lines U topic difficulty question_count question_types ls
          (questions_data, current_question, question_num)
      else if (suffix [QUESTION_MARK] line \<or> isin (py ''question'') (lower U line))
              \<and> length line > 20 then
        (let questions_data =
               (case current_question of
                  Some q \<Rightarrow> if question_num < question_count then questions_data @ [q]
                            else questions_data
                | None \<Rightarrow> questions_data);
             question_num = question_num + 1
         in if question_num > question_count
            then (questions_data, current_question, question_num)
            else parse_lines U topic difficulty question_count question_types ls
                   (questions_data,
                    Some (new_question U line topic difficulty question_types),
                    question_num))
      else
        parse_lines U topic difficulty question_count question_types ls
          (questions_data, current_question, question_num))"

text \<open>\<open>while len(questions_data) < question_count: questions_data.extend(...)\<close>\<close>

function fill_remaining :: "str \<Rightarrow> str \<Rightarrow> int \<Rightarrow> question list \<Rightarrow> question list" where
  "fill_remaining topic difficulty question_count questions_data =
     (if int (length questions_data) < question_count
      then fill_remaining topic difficulty question_count
             (questions_data @ generate_fallback_questions topic 1 difficulty)
      else questions_data)"
  by pat_completeness auto
termination
  by (relation "measure (\<lambda>(topic, difficulty, question_count, questions_data).
                  nat (question_count - int (length questions_data)))")
     (auto simp: generate_fallback_questions_def question_templates_def)

declare fill_remaining.simps [simp del]

text \<open>\<open>xs[:n]\<close>: a negative \<open>n\<close> counts from the end.\<close>

definition slice_to :: "'a list \<Rightarrow> int \<Rightarrow> 'a list" where
  "slice_to xs n = (if 0 \<le> n then take (nat n) xs else take (length xs - nat (- n)) xs)"

definition parse_questions_from_response ::
  "unicode \<Rightarrow> str \<Rightarrow> str \<Rightarrow> str \<Rightarrow> int \<Rightarrow> str list \<Rightarrow> question list" where
  "parse_questions_from_response U ai_response topic difficulty question_count question_types =
     (let lines = split_on NL ai_response;
          (questions_data, current_question, question_num) =
             parse_lines U topic difficulty question_count question_types lines ([], None, 0);
          questions_data =
             (case current_question of
                Some q \<Rightarrow> if int (length questions_data) < question_count
                          then questions_data @ [q] else questions_data
              | None \<Rightarrow> questions_data);
          questions_data = fill_remaining topic difficulty question_count questions_data
      in slice_to questions_data question_count)"

subsection \<open>\<open>generate_quiz_questions\<close>\<close>

abbreviation QUOTE :: nat where "QUOTE \<equiv> 34"
abbreviation APOSTROPHE :: nat where "APOSTROPHE \<equiv> 39"

definition quiz_prompt :: "str \<Rightarrow> str \<Rightarrow> int \<Rightarrow> str list \<Rightarrow> str" where
  "quiz_prompt topic difficulty question_count question_types =
     (let question_types_str = join (py '', '') question_types in
      py ''Create '' @ str_int question_count @ py '' quiz questions about '' @ [QUOTE] @ topic
      @ [QUOTE] @ py '' at '' @ difficulty
      @ py '' level.\<newline>Include these question types: '' @ question_types_str
      @ py ''\<newline>\<newline>For each question provide:\<newline>- Question text\<newline>- Question type (multiple_choice, true_false, or short_answer)\<newline>- For multiple choice: 4 options with one correct answer\<newline>- For true/false: statement that is definitively true or false\<newline>- Explanation of the correct answer\<newline>- A helpful hint\<newline>- Difficulty level\<newline>\<newline>Make questions educational and comprehensive about ''
      @ topic @ py ''.'')"

text \<open>
  The body of the \<open>try\<close>, lines 64-89. \<open>ai_response.split\<close>, at line 101, is outside the
  \<open>try\<close> of the parser, so on a response that is not a string it raises into this one.
\<close>

definition generate_quiz_body ::
  "unicode \<Rightarrow> (nat \<Rightarrow> reply) \<Rightarrow> str \<Rightarrow> str \<Rightarrow> int \<Rightarrow> str list \<Rightarrow> question list run" where
  "generate_quiz_body U http topic difficulty question_count question_types =
     (let prompt = quiz_prompt topic difficulty question_count question_types;
          (evs, r) = call_huggingface_api http prompt 3 1
      in case r of
           Inl e \<Rightarrow> (evs, Inl e)
         | Inr ai_response \<Rightarrow>
             if truthy ai_response then
               (case ai_response of
                  JStr response \<Rightarrow>
                    (evs, Inr (parse_questions_from_response U response topic difficulty
                                 question_count question_types))
                | _ \<Rightarrow> (evs, Inl AttributeError))
             else (evs, Inl (Exception (py ''Failed to get response from Hugging Face API''))))"

definition generate_quiz_questions ::
  "unicode \<Rightarrow> (nat \<Rightarrow> reply) \<Rightarrow> str \<Rightarrow> str \<Rightarrow> int \<Rightarrow> str list \<Rightarrow> question list run" where
  "generate_quiz_questions U http topic difficulty question_count question_types =
     (case generate_quiz_body U http topic difficulty question_count question_types of
        (evs, Inl e) \<Rightarrow> (evs, Inr (generate_fallback_questions topic question_count difficulty))
      | (evs, Inr questions_data) \<Rightarrow> (evs, Inr questions_data))"

subsection \<open>\<open>_evaluate_short_answer\<close>\<close>

text \<open>An entry of a question's \<open>correct_answers\<close>: a string, or an option index.\<close>

datatype answer = AStr str | AInt int

fun str_of :: "answer \<Rightarrow> str" where
  "str_of (AStr s) = s"
| "str_of (AInt i) = str_int i"

fun repr_of :: "unicode \<Rightarrow> answer \<Rightarrow> str" where
  "repr_of U (AStr s) = repr U s"
| "repr_of U (AInt i) = str_int i"

definition grading_prompt :: "unicode \<Rightarrow> str \<Rightarrow> answer list \<Rightarrow> str" where
  "grading_prompt U user_answer answers =
     py ''Evaluate if this answer is correct:\<newline>\<newline>User Answer: '' @ [QUOTE] @ user_answer @ [QUOTE]
     @ py ''\<newline>Correct Answers: ['' @ join (py '', '') (map (repr_of U) answers) @ py '']''
     @ py ''\<newline>\<newline>Consider synonyms and different ways to express the same concept. \<newline>Answer only ''
     @ [APOSTROPHE] @ py ''correct'' @ [APOSTROPHE] @ py '' or '' @ [APOSTROPHE] @ py ''incorrect''
     @ [APOSTROPHE] @ py ''.''"

text \<open>The string matching both fallbacks do, lines 392-396 and 400-404.\<close>

fun match_any :: "unicode \<Rightarrow> str \<Rightarrow> answer list \<Rightarrow> bool" where
  "match_any U user_answer_lower [] = False"
| "match_any U user_answer_lower (correct # rest) =
     (if user_answer_lower = strip U (lower U (str_of correct)) then True
      else match_any U user_answer_lower rest)"

definition string_matching :: "unicode \<Rightarrow> str \<Rightarrow> answer list \<Rightarrow> bool" where
  "string_matching U user_answer answers =
     (let user_answer_lower = strip U (lower U user_answer)
      in match_any U user_answer_lower answers)"

text \<open>
  The body of the \<open>try\<close>, lines 378-396; \<open>ai_response.lower()\<close> raises on a truthy
  response that is not a string.
\<close>

definition evaluate_short_answer_body ::
  "unicode \<Rightarrow> (nat \<Rightarrow> reply) \<Rightarrow> str \<Rightarrow> answer list \<Rightarrow> bool run" where
  "evaluate_short_answer_body U http user_answer answers =
     (let prompt = grading_prompt U user_answer answers;
          (evs, r) = call_huggingface_api http prompt 3 1
      in case r of
           Inl e \<Rightarrow> (evs, Inl e)
         | Inr ai_response \<Rightarrow>
             if truthy ai_response then
               (case ai_response of
                  JStr response \<Rightarrow>
                    if isin (py ''correct'') (lower U response)
                    then (evs, Inr (\<not> isin (py ''incorrect'') (lower U response)))
                    else (evs, Inr (string_matching U user_answer answers))
                | _ \<Rightarrow> (evs, Inl AttributeError))
             else (evs, Inr (string_matching U user_answer answers)))"

definition evaluate_short_answer ::
  "unicode \<Rightarrow> (nat \<Rightarrow> reply) \<Rightarrow> str \<Rightarrow> answer list \<Rightarrow> bool run" where
  "evaluate_short_answer U http user_answer answers =
     (case evaluate_short_answer_body U http user_answer answers of
        (evs, Inl e) \<Rightarrow> (evs, Inr (string_matching U user_answer answers))
      | (evs, Inr verdict) \<Rightarrow> (evs, Inr verdict))"

section \<open>Roadmap progress\<close>

record milestone =
  milestone_id :: int
  status :: str
  progress_percentage :: int

record roadmap =
  milestones :: "milestone list"
  overall_progress_percentage :: int
  completed_milestones :: "int list"
  roadmap_status :: str

text \<open>The \<open>for milestone in milestones\<close> loop, lines 549-553.\<close>

fun add_progress :: "int \<Rightarrow> milestone list \<Rightarrow> int" where
  "add_progress progress [] = progress"
| "add_progress progress (m # ms) =
     (if status m = py ''completed'' then add_progress (progress + 100) ms
      else if status m = py ''in_progress'' then add_progress (progress + progress_percentage m) ms
      else add_progress progress ms)"

text \<open>
  \<open>int(progress / total_milestones)\<close>: the quotient truncated towards zero. Python's
  \<open>/\<close> on integers is the floating-point quotient, correctly rounded to 53 bits; for a
  dividend below \<open>2 ^ 53\<close> in magnitude its truncation is the truncation of the exact
  quotient, which is what this definition gives. Beyond that bound the rounded quotient
  can differ, and the definition is not used: every statement about it carries the bound.
\<close>

definition int_of_quotient :: "int \<Rightarrow> int \<Rightarrow> int" where
  "int_of_quotient a b = a sdiv b"

text \<open>
  What \<open>update_roadmap_progress\<close> returns: the roadmap itself when it has no milestone,
  the dict of the report, or the dict of an error.
\<close>

datatype 'i progress_result =
    Unchanged
  | Report int nat nat 'i str
  | Error exn

text \<open>
  \<open>insights\<close> stands for \<open>_generate_progress_insights\<close>, called after the roadmap is
  saved; whatever it returns or raises, the roadmap has been updated.
\<close>

definition update_roadmap_progress ::
  "(roadmap \<Rightarrow> int \<Rightarrow> exn + 'i) \<Rightarrow> roadmap \<Rightarrow> roadmap \<times> 'i progress_result" where
  "update_roadmap_progress insights roadmap =
     (let total_milestones = length (milestones roadmap) in
      if total_milestones = 0 then (roadmap, Unchanged)
      else
        (let completed = filter (\<lambda>m. status m = py ''completed'') (milestones roadmap);
             progress = add_progress 0 (milestones roadmap);
             overall_progress =
               (if total_milestones > 0 then int_of_quotient progress (int total_milestones)
                else 0);
             roadmap = roadmap \<lparr> overall_progress_percentage := overall_progress,
                                 completed_milestones := map milestone_id completed \<rparr>;
             roadmap = (if overall_progress = 100
                        then roadmap \<lparr> roadmap_status := py ''completed'' \<rparr> else roadmap)
         in case insights roadmap overall_progress of
              Inl e \<Rightarrow> (roadmap, Error e)
            | Inr found \<Rightarrow>
                (roadmap,
                 Report overall_progress (length completed) total_milestones found
                   (roadmap_status roadmap))))"

text \<open>
  The share of one milestone in the mean, in the words of the specification: 100 if
  completed, its \<open>progress_percentage\<close> if in progress, 0 otherwise.
\<close>

definition milestone_share :: "milestone \<Rightarrow> int" where
  "milestone_share m =
     (if status m = py ''completed'' then 100
      else if status m = py ''in_progress'' then progress_percentage m
      else 0)"

section \<open>Endpoints and inputs of the examples\<close>

definition always_503 :: "nat \<Rightarrow> reply" where
  "always_503 k = Response 503 (Inl JSONDecodeError)"

definition always_fails :: "nat \<Rightarrow> reply" where
  "always_fails k = Fails RequestException"

definition always_404 :: "nat \<Rightarrow> reply" where
  "always_404 k = Response 404 (Inl JSONDecodeError)"

definition answers_with :: "str \<Rightarrow> nat \<Rightarrow> reply" where
  "answers_with s k = Response 200 (Inr (JList [JObj [(py ''generated_text'', JStr s)]]))"

definition short_link :: parsed_url where
  "short_link = \<lparr> hostname = Some (py ''youtu.be''), path = py ''/abc'', query = [] \<rparr>"

definition watch_without_v :: parsed_url where
  "watch_without_v =
     \<lparr> hostname = Some (py ''www.youtube.com''), path = py ''/watch'',
       query = [(py ''list'', [py ''PL1''])] \<rparr>"

definition other_site :: parsed_url where
  "other_site = \<lparr> hostname = Some (py ''example.com''), path = py ''/watch'', query = [] \<rparr>"

definition four_milestones :: roadmap where
  "four_milestones =
     \<lparr> milestones =
         [\<lparr> milestone_id = 1, status = py ''completed'', progress_percentage = 100 \<rparr>,
          \<lparr> milestone_id = 2, status = py ''completed'', progress_percentage = 100 \<rparr>,
          \<lparr> milestone_id = 3, status = py ''in_progress'', progress_percentage = 50 \<rparr>,
          \<lparr> milestone_id = 4, status = py ''not_started'', progress_percentage = 0 \<rparr>],
       overall_progress_percentage = 0,
       completed_milestones = [],
       roadmap_status = py ''active'' \<rparr>"

definition no_insights :: "roadmap \<Rightarrow> int \<Rightarrow> exn + unit" where
  "no_insights r p = Inr ()"

section \<open>The inference client: retries\<close>

lemma attempts_503:
  assumes "\<forall>k<m. \<exists>b. http k = Response 503 b" "a \<le> m"
  shows "attempts http p m d a
         = (concat (map (\<lambda>k. [Post p, Sleep (d * (k + 1))]) [a..<m]), Inr JNull)"
  using assms
proof (induction "m - a" arbitrary: a)
  case 0
  then show ?case by (simp add: attempts.simps)
next
  case (Suc n)
  then have lt: "a < m" by simp
  then obtain b where b: "http a = Response 503 b" using Suc.prems by blast
  have "attempts http p m d (a + 1)
        = (concat (map (\<lambda>k. [Post p, Sleep (d * (k + 1))]) [a + 1..<m]), Inr JNull)"
    using Suc by simp
  then show ?case using lt b
    by (subst attempts.simps) (simp add: after_def upt_conv_Cons)
qed

lemma posts_backoff: "posts (concat (map (\<lambda>k. [Post p, Sleep (f k)]) ks)) = length ks"
  by (induction ks) (simp_all add: posts_def)

lemma sleeps_backoff: "sleeps (concat (map (\<lambda>k. [Post p, Sleep (f k)]) ks)) = map f ks"
  by (induction ks) (simp_all add: sleeps_def)

text \<open>
  C1. When every attempt is answered with status 503, the client sends exactly
  \<open>max_retries\<close> requests, sleeps \<open>delay * k\<close> after the \<open>k\<close>-th of them (\<open>k\<close> counted
  from 1), and returns \<open>None\<close> without raising. The sleep after the last request is taken
  too, before the loop ends.
\<close>

theorem all_503_returns_None:
  assumes "\<forall>k<max_retries. \<exists>body. http k = Response 503 body"
  shows "snd (call_huggingface_api http prompt max_retries delay) = Inr JNull
       \<and> posts (fst (call_huggingface_api http prompt max_retries delay)) = max_retries
       \<and> sleeps (fst (call_huggingface_api http prompt max_retries delay))
           = map (\<lambda>k. delay * (k + 1)) [0..<max_retries]
       \<and> fst (call_huggingface_api http prompt max_retries delay)
           = concat (map (\<lambda>k. [Post prompt, Sleep (delay * (k + 1))]) [0..<max_retries])"
  using attempts_503 [OF assms, of 0 prompt delay]
  by (simp add: call_huggingface_api_def posts_backoff sleeps_backoff)

theorem all_503_returns_None_witness:
  "call_huggingface_api always_503 (py ''Explain photosynthesis'') 3 1
     = ([Post (py ''Explain photosynthesis''), Sleep 1,
         Post (py ''Explain photosynthesis''), Sleep 2,
         Post (py ''Explain photosynthesis''), Sleep 3], Inr JNull)"
proof -
  have h: "\<forall>k<3. \<exists>body. always_503 k = Response 503 body"
    by (simp add: always_503_def)
  have u: "[0..<3] = [0, 1, 2]" by (simp add: upt_rec)
  show ?thesis
    using all_503_returns_None [OF h, of "py ''Explain photosynthesis''" 1]
    by (simp add: prod_eq_iff u)
qed

text \<open>
  C4. An exception thrown by the request of an attempt that is not the last makes the
  client sleep \<open>delay\<close> and go on with the next attempt; thrown by the request of the last
  attempt (number \<open>max_retries\<close>), it is raised to the caller.
\<close>

theorem exception_retried_or_raised:
  assumes "attempt < max_retries" and "http attempt = Fails e"
  shows "(attempt + 1 < max_retries \<longrightarrow>
            attempts http prompt max_retries delay attempt
              = after [Post prompt, Sleep delay]
                  (attempts http prompt max_retries delay (attempt + 1)))
       \<and> (attempt + 1 = max_retries \<longrightarrow>
            attempts http prompt max_retries delay attempt = ([Post prompt], Inl e))"
  using assms by (subst attempts.simps, subst (2) attempts.simps) auto

theorem exception_retried_or_raised_witness:
  "call_huggingface_api always_fails (py ''hi'') 3 1
     = ([Post (py ''hi''), Sleep 1, Post (py ''hi''), Sleep 1, Post (py ''hi'')],
        Inl RequestException)"
proof -
  have f: "\<And>k. always_fails k = Fails RequestException" by (simp add: always_fails_def)
  have a0: "attempts always_fails (py ''hi'') 3 1 0
              = after [Post (py ''hi''), Sleep 1] (attempts always_fails (py ''hi'') 3 1 1)"
    using exception_retried_or_raised [of 0 3 always_fails RequestException "py ''hi''" 1] f
    by simp
  have a1: "attempts always_fails (py ''hi'') 3 1 1
              = after [Post (py ''hi''), Sleep 1] (attempts always_fails (py ''hi'') 3 1 2)"
    using exception_retried_or_raised [of 1 3 always_fails RequestException "py ''hi''" 1] f
    by (simp add: numeral_2_eq_2)
  have a2: "attempts always_fails (py ''hi'') 3 1 2 = ([Post (py ''hi'')], Inl RequestException)"
    using exception_retried_or_raised [of 2 3 always_fails RequestException "py ''hi''" 1] f
    by simp
  show ?thesis unfolding call_huggingface_api_def a0 a1 a2 after_def by simp
qed

text \<open>
  C5. When the first attempt is answered with a status that is neither 200 nor 503, the
  client returns \<open>None\<close> after that one request, with no sleep and no retry.
\<close>

theorem other_status_one_attempt:
  assumes "0 < max_retries" and "http 0 = Response status_code body"
    and "status_code \<noteq> 200" and "status_code \<noteq> 503"
  shows "call_huggingface_api http prompt max_retries delay = ([Post prompt], Inr JNull)
       \<and> posts (fst (call_huggingface_api http prompt max_retries delay)) = 1
       \<and> sleeps (fst (call_huggingface_api http prompt max_retries delay)) = []"
  using assms
  by (simp add: call_huggingface_api_def attempts.simps [of http prompt max_retries delay 0]
        posts_def sleeps_def)

theorem other_status_one_attempt_witness:
  "call_huggingface_api always_404 (py ''hi'') 3 1 = ([Post (py ''hi'')], Inr JNull)"
  using other_status_one_attempt [of 3 always_404 404 "Inl JSONDecodeError" "py ''hi''" 1]
  by (simp add: always_404_def)

section \<open>The notes pipeline: extraction and fallback\<close>

lemma bullet_lines_nonempty:
  "bullet_lines U ls \<noteq> [] \<longleftrightarrow>
   (\<exists>l \<in> set ls. starts_with_marker U (strip U l) \<and> length (re_sub_marker U (strip U l)) > 10)"
  by (induction ls) (auto simp: Let_def)

lemma length_question_lines: "length (question_lines U ls) \<le> length ls"
  by (induction ls) (auto simp: Let_def)

text \<open>
  C6, as amended. For every raw text \<open>extract_bullet_points\<close> returns at most 8 items,
  and at least one when some line, once stripped, starts with a bullet marker and keeps
  more than 10 characters after the marker is removed; \<open>extract_questions\<close> returns at
  least one and at most 10 items.
\<close>

theorem bullet_points_and_questions_bounds:
  "length (extract_bullet_points U text) \<le> 8
   \<and> ((\<exists>l \<in> set (split_on NL text).
          starts_with_marker U (strip U l) \<and> length (re_sub_marker U (strip U l)) > 10)
        \<longrightarrow> extract_bullet_points U text \<noteq> [])
   \<and> extract_questions U text \<noteq> []
   \<and> length (extract_questions U text) \<le> 10"
proof -
  have a: "length (extract_bullet_points U text) \<le> 8"
    by (simp add: extract_bullet_points_def Let_def)
  have b: "(\<exists>l \<in> set (split_on NL text).
          starts_with_marker U (strip U l) \<and> length (re_sub_marker U (strip U l)) > 10)
        \<longrightarrow> extract_bullet_points U text \<noteq> []"
    using bullet_lines_nonempty [of U "split_on NL text"]
    by (auto simp: extract_bullet_points_def Let_def)
  have c: "extract_questions U text \<noteq> []"
    by (simp add: extract_questions_def Let_def)
  have d: "length (extract_questions U text) \<le> 10"
    by (simp add: extract_questions_def Let_def)
  show ?thesis using a b c d by blast
qed

theorem bullet_points_and_questions_bounds_witness:
  "(\<exists>l \<in> set (split_on NL (py ''- Key idea one about mammals'')).
      starts_with_marker ascii (strip ascii l)
      \<and> length (re_sub_marker ascii (strip ascii l)) > 10)
   \<and> extract_bullet_points ascii (py ''- Key idea one about mammals'') \<noteq> []
   \<and> length (extract_bullet_points ascii (py ''- Key idea one about mammals'')) \<le> 8
   \<and> extract_questions ascii (py ''- Key idea one about mammals'') \<noteq> []
   \<and> length (extract_questions ascii (py ''- Key idea one about mammals'')) \<le> 10"
proof -
  have s: "split_on NL (py ''- Key idea one about mammals'') = [py ''- Key idea one about mammals'']"
    by (simp add: py_def)
  have t: "strip ascii (py ''- Key idea one about mammals'') = py ''- Key idea one about mammals''"
    by (simp add: strip_def ascii_def py_def)
  have m: "starts_with_marker ascii (py ''- Key idea one about mammals'')"
    by (simp add: starts_with_marker_def py_def)
  have r: "re_sub_marker ascii (py ''- Key idea one about mammals'') = py ''Key idea one about mammals''"
    by (simp add: py_def ascii_def)
  have l: "length (py ''Key idea one about mammals'') > 10" by (simp add: py_def)
  have ante: "\<exists>l \<in> set (split_on NL (py ''- Key idea one about mammals'')).
      starts_with_marker ascii (strip ascii l)
      \<and> length (re_sub_marker ascii (strip ascii l)) > 10"
    using m l by (simp add: s t r)
  show ?thesis
    using bullet_points_and_questions_bounds [of ascii "py ''- Key idea one about mammals''"] ante
    by blast
qed

text \<open>
  C6 as stated fails: the one line of \<open>- hi\<close> starts with a marker, yet no item is
  returned, since the point is not longer than 10 characters and the text has no
  sentence longer than 20.
\<close>

theorem short_bullet_counterexample:
  "split_on NL (py ''- hi'') = [py ''- hi'']
   \<and> prefix [DASH] (py ''- hi'')
   \<and> extract_bullet_points ascii (py ''- hi'') = []"
  by (simp add: extract_bullet_points_def py_def ascii_def strip_def starts_with_marker_def)









lemma call_answers_with:
  "call_huggingface_api (answers_with s) p 3 d = ([Post p], Inr (JStr s))"
  by (simp add: call_huggingface_api_def attempts.simps [of _ _ _ _ 0] answers_with_def
        generated_text_def)


lemma parse_non_string:
  "\<forall>response. a \<noteq> JStr response \<Longrightarrow>
   parse_ai_response U a original_text title source_type
     = create_fallback_notes original_text title source_type"
  by (cases a) (simp_all add: parse_ai_response_def parse_body_def)

text \<open>
  C2, as amended. \<open>generate_notes_from_text\<close> never raises: it returns a dict on every
  behaviour of the endpoint, and that dict is the fallback's whenever the client raises
  (also on its last attempt), returns a falsy value, or returns something that is not a
  string.
\<close>

theorem notes_always_structured:
  "(\<exists>result. snd (generate_notes_from_text U http text title source_type) = Inr result)
   \<and> fst (generate_notes_from_text U http text title source_type)
       = fst (call_huggingface_api http (notes_prompt text title source_type) 3 1)
   \<and> ((\<exists>e. snd (call_huggingface_api http (notes_prompt text title source_type) 3 1) = Inl e)
        \<longrightarrow> snd (generate_notes_from_text U http text title source_type)
              = Inr (create_fallback_notes text title source_type))
   \<and> ((\<exists>a. snd (call_huggingface_api http (notes_prompt text title source_type) 3 1) = Inr a
             \<and> \<not> truthy a)
        \<longrightarrow> snd (generate_notes_from_text U http text title source_type)
              = Inr (create_fallback_notes text title source_type))
   \<and> ((\<exists>a. snd (call_huggingface_api http (notes_prompt text title source_type) 3 1) = Inr a
             \<and> (\<forall>response. a \<noteq> JStr response))
        \<longrightarrow> snd (generate_notes_from_text U http text title source_type)
              = Inr (create_fallback_notes text title source_type))"
  by (cases "call_huggingface_api http (notes_prompt text title source_type) 3 1")
     (auto simp: generate_notes_from_text_def generate_notes_body_def parse_non_string
           split: sum.splits)

lemma call_always_fails:
  "call_huggingface_api always_fails p 3 d
     = ([Post p, Sleep d, Post p, Sleep d, Post p], Inl RequestException)"
  by (simp add: call_huggingface_api_def attempts.simps [of always_fails] always_fails_def after_def)

theorem notes_always_structured_witness:
  "(\<exists>e. snd (call_huggingface_api always_fails
              (notes_prompt (py ''Cells divide.'') (py ''Cell Biology'') (py ''text'')) 3 1) = Inl e)
   \<and> snd (generate_notes_from_text ascii always_fails (py ''Cells divide.'') (py ''Cell Biology'') (py ''text''))
       = Inr (create_fallback_notes (py ''Cells divide.'') (py ''Cell Biology'') (py ''text''))"
  using notes_always_structured [of ascii always_fails "py ''Cells divide.''" "py ''Cell Biology''" "py ''text''"]
  by (simp add: call_always_fails)

text \<open>
  C2 as stated fails: when every request throws, the client raises on its last attempt,
  and \<open>generate_notes_from_text\<close> catches the exception and returns the fallback notes.
\<close>

theorem exception_caught_counterexample:
  "snd (call_huggingface_api always_fails (notes_prompt (py ''abc'') (py ''T'') (py ''text'')) 3 1)
     = Inl RequestException
   \<and> snd (generate_notes_from_text ascii always_fails (py ''abc'') (py ''T'') (py ''text''))
       \<noteq> Inl RequestException
   \<and> snd (generate_notes_from_text ascii always_fails (py ''abc'') (py ''T'') (py ''text''))
       = Inr (create_fallback_notes (py ''abc'') (py ''T'') (py ''text''))"
  by (simp add: generate_notes_from_text_def generate_notes_body_def call_always_fails Let_def)

section \<open>Short-answer grading\<close>

lemma match_any_iff:
  "match_any U ua answers \<longleftrightarrow> (\<exists>c \<in> set answers. ua = strip U (lower U (str_of c)))"
  by (induction answers) auto

text \<open>
  C7, as amended. When the model answers with a non-empty text that contains
  \<open>correct\<close> (in its lower-cased form), the answer is graded correct exactly when the
  text does not contain \<open>incorrect\<close>. In every other case the grade is the string
  matching's: when the text does not contain \<open>correct\<close>, when the call returns nothing
  or something that is not a string, and when the call raises. The string matching holds
  when the user's answer, lower-cased and stripped, equals one of the listed answers,
  lower-cased and stripped; so \<open>Paris\<close> is correct against \<open>['paris']\<close>.
\<close>

theorem short_answer_grading:
  "(\<forall>response.
       snd (call_huggingface_api http (grading_prompt U user_answer answers) 3 1)
         = Inr (JStr response) \<and> response \<noteq> []
       \<longrightarrow> snd (evaluate_short_answer U http user_answer answers)
            = Inr (if isin (py ''correct'') (lower U response)
                   then \<not> isin (py ''incorrect'') (lower U response)
                   else string_matching U user_answer answers))
   \<and> (\<forall>e.
       snd (call_huggingface_api http (grading_prompt U user_answer answers) 3 1) = Inl e
       \<longrightarrow> snd (evaluate_short_answer U http user_answer answers)
            = Inr (string_matching U user_answer answers))
   \<and> (\<forall>a.
       snd (call_huggingface_api http (grading_prompt U user_answer answers) 3 1) = Inr a
         \<and> (\<not> truthy a \<or> (\<forall>response. a \<noteq> JStr response))
       \<longrightarrow> snd (evaluate_short_answer U http user_answer answers)
            = Inr (string_matching U user_answer answers))
   \<and> (string_matching U user_answer answers
        \<longleftrightarrow> (\<exists>c \<in> set answers.
               strip U (lower U user_answer) = strip U (lower U (str_of c))))"
proof -
  have n: "\<forall>a.
       snd (call_huggingface_api http (grading_prompt U user_answer answers) 3 1) = Inr a
         \<and> (\<not> truthy a \<or> (\<forall>response. a \<noteq> JStr response))
       \<longrightarrow> snd (evaluate_short_answer U http user_answer answers)
            = Inr (string_matching U user_answer answers)"
  proof (intro allI impI)
    fix a
    assume h: "snd (call_huggingface_api http (grading_prompt U user_answer answers) 3 1) = Inr a
         \<and> (\<not> truthy a \<or> (\<forall>response. a \<noteq> JStr response))"
    then show "snd (evaluate_short_answer U http user_answer answers)
            = Inr (string_matching U user_answer answers)"
      by (cases "call_huggingface_api http (grading_prompt U user_answer answers) 3 1"; cases a)
         (auto simp: evaluate_short_answer_def evaluate_short_answer_body_def)
  qed
  have m: "string_matching U user_answer answers
        \<longleftrightarrow> (\<exists>c \<in> set answers.
               strip U (lower U user_answer) = strip U (lower U (str_of c)))"
    by (simp add: string_matching_def match_any_iff)
  have e: "\<forall>e.
       snd (call_huggingface_api http (grading_prompt U user_answer answers) 3 1) = Inl e
       \<longrightarrow> snd (evaluate_short_answer U http user_answer answers)
            = Inr (string_matching U user_answer answers)"
    by (cases "call_huggingface_api http (grading_prompt U user_answer answers) 3 1")
       (simp add: evaluate_short_answer_def evaluate_short_answer_body_def)
  have r: "\<forall>response.
       snd (call_huggingface_api http (grading_prompt U user_answer answers) 3 1)
         = Inr (JStr response) \<and> response \<noteq> []
       \<longrightarrow> snd (evaluate_short_answer U http user_answer answers)
            = Inr (if isin (py ''correct'') (lower U response)
                   then \<not> isin (py ''incorrect'') (lower U response)
                   else string_matching U user_answer answers)"
    by (cases "call_huggingface_api http (grading_prompt U user_answer answers) 3 1")
       (simp add: evaluate_short_answer_def evaluate_short_answer_body_def)
  show ?thesis using r e n m by blast
qed

theorem short_answer_grading_witness:
  "snd (evaluate_short_answer ascii (answers_with (py ''Correct'')) (py ''Lutetia'')
          [AStr (py ''paris'')]) = Inr True
   \<and> snd (evaluate_short_answer ascii (answers_with (py ''incorrect'')) (py ''Paris'')
          [AStr (py ''paris'')]) = Inr False
   \<and> snd (evaluate_short_answer ascii always_fails (py ''Paris'') [AStr (py ''paris'')]) = Inr True"
proof -
  have c1: "snd (call_huggingface_api (answers_with (py ''Correct''))
              (grading_prompt ascii (py ''Lutetia'') [AStr (py ''paris'')]) 3 1)
            = Inr (JStr (py ''Correct''))"
    by (simp add: call_answers_with)
  have n1: "py ''Correct'' \<noteq> []" by (simp add: py_def)
  have v1: "isin (py ''correct'') (lower ascii (py ''Correct''))"
    by (simp add: py_def ascii_def)
  have w1: "\<not> isin (py ''incorrect'') (lower ascii (py ''Correct''))"
    by (simp add: py_def ascii_def)
  have g1: "snd (evaluate_short_answer ascii (answers_with (py ''Correct'')) (py ''Lutetia'')
          [AStr (py ''paris'')])
        = Inr (if isin (py ''correct'') (lower ascii (py ''Correct''))
               then \<not> isin (py ''incorrect'') (lower ascii (py ''Correct''))
               else string_matching ascii (py ''Lutetia'') [AStr (py ''paris'')])"
    using short_answer_grading [of "answers_with (py ''Correct'')" ascii "py ''Lutetia''"
            "[AStr (py ''paris'')]"] c1 n1
    by blast
  have r1: "snd (evaluate_short_answer ascii (answers_with (py ''Correct'')) (py ''Lutetia'')
          [AStr (py ''paris'')]) = Inr True"
    unfolding g1 using v1 w1 by simp
  have c2: "snd (call_huggingface_api (answers_with (py ''incorrect''))
              (grading_prompt ascii (py ''Paris'') [AStr (py ''paris'')]) 3 1)
            = Inr (JStr (py ''incorrect''))"
    by (simp add: call_answers_with)
  have n2: "py ''incorrect'' \<noteq> []" by (simp add: py_def)
  have v2: "isin (py ''correct'') (lower ascii (py ''incorrect''))"
    by (simp add: py_def ascii_def)
  have w2: "isin (py ''incorrect'') (lower ascii (py ''incorrect''))"
    by (simp add: py_def ascii_def)
  have g2: "snd (evaluate_short_answer ascii (answers_with (py ''incorrect'')) (py ''Paris'')
          [AStr (py ''paris'')])
        = Inr (if isin (py ''correct'') (lower ascii (py ''incorrect''))
               then \<not> isin (py ''incorrect'') (lower ascii (py ''incorrect''))
               else string_matching ascii (py ''Paris'') [AStr (py ''paris'')])"
    using short_answer_grading [of "answers_with (py ''incorrect'')" ascii "py ''Paris''"
            "[AStr (py ''paris'')]"] c2 n2
    by blast
  have r2: "snd (evaluate_short_answer ascii (answers_with (py ''incorrect'')) (py ''Paris'')
          [AStr (py ''paris'')]) = Inr False"
    unfolding g2 using v2 w2 by simp
  have c3: "snd (call_huggingface_api always_fails
              (grading_prompt ascii (py ''Paris'') [AStr (py ''paris'')]) 3 1) = Inl RequestException"
    by (simp add: call_always_fails)
  have s3: "string_matching ascii (py ''Paris'') [AStr (py ''paris'')]"
    by (simp add: string_matching_def strip_def ascii_def py_def)
  have g3: "snd (evaluate_short_answer ascii always_fails (py ''Paris'') [AStr (py ''paris'')])
        = Inr (string_matching ascii (py ''Paris'') [AStr (py ''paris'')])"
    using short_answer_grading [of always_fails ascii "py ''Paris''" "[AStr (py ''paris'')]"] c3
    by blast
  have r3: "snd (evaluate_short_answer ascii always_fails (py ''Paris'') [AStr (py ''paris'')])
        = Inr True"
    unfolding g3 using s3 by simp
  show ?thesis using r1 r2 r3 by blast
qed

text \<open>
  C7 as stated fails: the call does not raise and the response \<open>I cannot tell\<close> does
  not contain \<open>correct\<close>, yet the answer \<open>Paris\<close> is graded correct, by the string
  matching the grading falls through to.
\<close>

theorem no_verdict_counterexample:
  "snd (call_huggingface_api (answers_with (py ''I cannot tell''))
          (grading_prompt ascii (py ''Paris'') [AStr (py ''paris'')]) 3 1)
     = Inr (JStr (py ''I cannot tell''))
   \<and> \<not> isin (py ''correct'') (lower ascii (py ''I cannot tell''))
   \<and> snd (evaluate_short_answer ascii (answers_with (py ''I cannot tell'')) (py ''Paris'')
          [AStr (py ''paris'')]) = Inr True"
proof -
  have c: "snd (call_huggingface_api (answers_with (py ''I cannot tell''))
          (grading_prompt ascii (py ''Paris'') [AStr (py ''paris'')]) 3 1)
     = Inr (JStr (py ''I cannot tell''))"
    by (simp add: call_answers_with)
  have v: "\<not> isin (py ''correct'') (lower ascii (py ''I cannot tell''))"
    by (simp add: py_def ascii_def)
  have s: "string_matching ascii (py ''Paris'') [AStr (py ''paris'')]"
    by (simp add: string_matching_def strip_def ascii_def py_def)
  have t: "truthy (JStr (py ''I cannot tell''))" by (simp add: py_def)
  have "snd (evaluate_short_answer ascii (answers_with (py ''I cannot tell'')) (py ''Paris'')
          [AStr (py ''paris'')]) = Inr True"
    using v s t
    by (simp add: evaluate_short_answer_def evaluate_short_answer_body_def call_answers_with
          Let_def)
  then show ?thesis using c v by simp
qed

section \<open>Roadmap progress\<close>

lemma add_progress_sum: "add_progress p ms = p + sum_list (map milestone_share ms)"
  by (induction ms arbitrary: p) (simp_all add: milestone_share_def)

text \<open>
  C8. On a roadmap with milestones whose shares (100 if completed, the milestone's
  \<open>progress_percentage\<close> if in progress, 0 otherwise) sum to less than \<open>2 ^ 53\<close> in
  magnitude, \<open>update_roadmap_progress\<close> sets the overall progress to the mean of the
  shares truncated to an integer; for a non-negative sum that is the quotient rounded
  down. With two completed milestones, one in progress at 50 and one not started it
  is 62. The bound is where the floating-point quotient of line 557 truncates to the
  exact one.
\<close>

theorem overall_progress_truncated_mean:
  assumes "milestones roadmap \<noteq> []"
    and "\<bar>sum_list (map milestone_share (milestones roadmap))\<bar> < 2 ^ 53"
  shows "overall_progress_percentage (fst (update_roadmap_progress insights roadmap))
         = sum_list (map milestone_share (milestones roadmap))
             sdiv int (length (milestones roadmap))
       \<and> (0 \<le> sum_list (map milestone_share (milestones roadmap)) \<longrightarrow>
            overall_progress_percentage (fst (update_roadmap_progress insights roadmap))
            = sum_list (map milestone_share (milestones roadmap))
                div int (length (milestones roadmap)))"
proof -
  have a: "overall_progress_percentage (fst (update_roadmap_progress insights roadmap))
         = sum_list (map milestone_share (milestones roadmap))
             sdiv int (length (milestones roadmap))"
    using assms(1)
    by (simp add: update_roadmap_progress_def Let_def add_progress_sum int_of_quotient_def
          split: sum.splits)
  have b: "0 \<le> k \<Longrightarrow> k sdiv int (length (milestones roadmap))
                     = k div int (length (milestones roadmap))" for k
    using assms(1) by (cases "k = 0") (simp_all add: signed_divide_int_def)
  show ?thesis using a b by simp
qed

theorem overall_progress_truncated_mean_witness:
  "milestones four_milestones \<noteq> []
   \<and> \<bar>sum_list (map milestone_share (milestones four_milestones))\<bar> < 2 ^ 53
   \<and> overall_progress_percentage (fst (update_roadmap_progress no_insights four_milestones)) = 62"
proof -
  have m: "milestones four_milestones \<noteq> []" by (simp add: four_milestones_def)
  have s: "sum_list (map milestone_share (milestones four_milestones)) = 250"
    by (simp add: four_milestones_def milestone_share_def py_def)
  have bnd: "\<bar>sum_list (map milestone_share (milestones four_milestones))\<bar> < 2 ^ 53"
    by (simp add: s)
  have l: "int (length (milestones four_milestones)) = 4" by (simp add: four_milestones_def)
  have q: "(250::int) div 4 = 62" by simp
  show ?thesis
    using overall_progress_truncated_mean [OF m bnd, of no_insights] m bnd by (simp add: s l q)
qed

section \<open>The YouTube entry point: rejected addresses\<close>

text \<open>
  C9, as amended. An address whose host is none of \<open>youtu.be\<close>, \<open>youtube.com\<close> and
  \<open>www.youtube.com\<close>, or whose host is one of the latter two and whose path is neither
  \<open>/watch\<close> nor starts with \<open>/embed/\<close> or \<open>/v/\<close>, has no video id:
  \<open>extract_youtube_video_id\<close> returns \<open>None\<close> and \<open>process_youtube_url\<close> raises
  \<open>ValueError\<close> before any request is sent. \<open>process_text_input\<close> raises on no input.
\<close>

theorem unrecognised_url_rejected:
  assumes "(hostname url \<noteq> Some (py ''youtu.be'')
            \<and> hostname url \<noteq> Some (py ''www.youtube.com'')
            \<and> hostname url \<noteq> Some (py ''youtube.com''))
         \<or> ((hostname url = Some (py ''www.youtube.com'') \<or> hostname url = Some (py ''youtube.com''))
            \<and> path url \<noteq> py ''/watch''
            \<and> take 7 (path url) \<noteq> py ''/embed/''
            \<and> take 3 (path url) \<noteq> py ''/v/'')"
  shows "extract_youtube_video_id url = Inr None
       \<and> process_youtube_url U http url title = ([], Inl (ValueError (py ''Invalid YouTube URL'')))
       \<and> (\<exists>result. snd (process_text_input U http text title) = Inr result)"
proof -
  have y: "py ''www.youtube.com'' \<noteq> py ''youtu.be''" "py ''youtube.com'' \<noteq> py ''youtu.be''"
    by (simp_all add: py_def)
  have x: "extract_youtube_video_id url = Inr None"
    using assms y by (auto simp: extract_youtube_video_id_def)
  have p: "process_youtube_url U http url title = ([], Inl (ValueError (py ''Invalid YouTube URL'')))"
    by (simp add: process_youtube_url_def x)
  have t: "\<exists>result. snd (process_text_input U http text title) = Inr result"
    by (cases "call_huggingface_api http (notes_prompt text title (py ''text input'')) 3 1")
       (auto simp: process_text_input_def generate_notes_from_text_def generate_notes_body_def
             split: sum.splits)
  show ?thesis using x p t by blast
qed

theorem unrecognised_url_rejected_witness:
  "hostname other_site = Some (py ''example.com'')
   \<and> extract_youtube_video_id other_site = Inr None
   \<and> process_youtube_url ascii always_fails other_site (py ''Talk'')
       = ([], Inl (ValueError (py ''Invalid YouTube URL'')))"
proof -
  have h: "hostname other_site \<noteq> Some (py ''youtu.be'')
            \<and> hostname other_site \<noteq> Some (py ''www.youtube.com'')
            \<and> hostname other_site \<noteq> Some (py ''youtube.com'')"
    by (simp add: other_site_def py_def)
  have n: "hostname other_site = Some (py ''example.com'')" by (simp add: other_site_def)
  show ?thesis
    using unrecognised_url_rejected [of other_site ascii always_fails "py ''Talk''"] h n by blast
qed

text \<open>
  C9 as stated fails: the path \<open>/abc\<close> of a short link on \<open>youtu.be\<close> is none of the
  forms \<open>/watch\<close>, \<open>/embed/...\<close>, \<open>/v/...\<close>, yet its video id is \<open>abc\<close> and notes
  are returned for it.
\<close>

theorem short_link_counterexample:
  "hostname short_link = Some (py ''youtu.be'')
   \<and> path short_link \<noteq> py ''/watch''
   \<and> take 7 (path short_link) \<noteq> py ''/embed/''
   \<and> take 3 (path short_link) \<noteq> py ''/v/''
   \<and> extract_youtube_video_id short_link = Inr (Some (py ''abc''))
   \<and> extract_youtube_video_id short_link \<noteq> Inr None
   \<and> snd (process_youtube_url ascii always_fails short_link (py ''Talk''))
       = Inr (create_fallback_notes (get_youtube_transcript (py ''abc'')) (py ''Talk'')
               (py ''YouTube video''))"
proof -
  have x: "extract_youtube_video_id short_link = Inr (Some (py ''abc''))"
    by (simp add: extract_youtube_video_id_def short_link_def py_def)
  have n: "py ''abc'' \<noteq> []" "py ''Talk'' \<noteq> []" by (simp_all add: py_def)
  have p: "snd (process_youtube_url ascii always_fails short_link (py ''Talk''))
       = Inr (create_fallback_notes (get_youtube_transcript (py ''abc'')) (py ''Talk'')
               (py ''YouTube video''))"
    using n
    by (simp add: process_youtube_url_def x generate_notes_from_text_def
          generate_notes_body_def call_always_fails Let_def)
  have h: "hostname short_link = Some (py ''youtu.be'')
   \<and> path short_link \<noteq> py ''/watch''
   \<and> take 7 (path short_link) \<noteq> py ''/embed/''
   \<and> take 3 (path short_link) \<noteq> py ''/v/''"
    by (simp add: short_link_def py_def)
  show ?thesis using x p h by simp
qed

text \<open>
  A \<open>/watch\<close> address on \<open>www.youtube.com\<close> whose query has no \<open>v\<close>: the lookup
  \<open>parse_qs(...)['v']\<close> raises \<open>KeyError\<close>, which \<open>process_youtube_url\<close> lets through.
\<close>

lemma watch_without_v_raises:
  "extract_youtube_video_id watch_without_v = Inl KeyError
   \<and> process_youtube_url U http watch_without_v title = ([], Inl KeyError)"
proof -
  have x: "extract_youtube_video_id watch_without_v = Inl KeyError"
    by (simp add: extract_youtube_video_id_def watch_without_v_def py_def)
  show ?thesis by (simp add: process_youtube_url_def x)
qed

section \<open>Quiz generation: how many questions\<close>

lemma length_fallback_questions:
  "length (generate_fallback_questions topic n difficulty) = nat (min n 3)"
  by (simp add: generate_fallback_questions_def question_templates_def)

lemma length_fill_remaining:
  "int (length (fill_remaining topic difficulty n qs)) = max n (int (length qs))"
proof (induction topic difficulty n qs rule: fill_remaining.induct)
  case (1 topic difficulty n qs)
  show ?case
  proof (cases "int (length qs) < n")
    case True
    then show ?thesis
      using "1.IH" by (subst fill_remaining.simps) (simp add: length_fallback_questions)
  next
    case False
    then show ?thesis by (subst fill_remaining.simps) simp
  qed
qed

lemma length_parse_questions:
  assumes "0 \<le> n"
  shows "int (length (parse_questions_from_response U response topic difficulty n question_types)) = n"
proof -
  obtain qd cur num where p:
    "parse_lines U topic difficulty n question_types (split_on NL response) ([], None, 0)
       = (qd, cur, num)"
    by (cases "parse_lines U topic difficulty n question_types (split_on NL response) ([], None, 0)")
  define filled where "filled = fill_remaining topic difficulty n
      (case cur of None \<Rightarrow> qd | Some q \<Rightarrow> if int (length qd) < n then qd @ [q] else qd)"
  have "n \<le> int (length filled)"
    unfolding filled_def by (simp add: length_fill_remaining)
  then have "int (length (slice_to filled n)) = n"
    using assms by (simp add: slice_to_def)
  then show ?thesis
    by (simp add: parse_questions_from_response_def p Let_def filled_def)
qed

text \<open>
  C10. For a requested count \<open>n\<close> of at least 1 the fallback generator returns
  \<open>min(n, 3)\<close> questions; when the client raises or returns nothing,
  \<open>generate_quiz_questions\<close> returns just those; when the client returns a non-empty
  text, the parser pads and truncates to exactly \<open>n\<close> questions.
\<close>

theorem fallback_question_counts:
  assumes "1 \<le> n"
  shows "int (length (generate_fallback_questions topic n difficulty)) = min n 3
   \<and> ((\<exists>e. snd (call_huggingface_api http (quiz_prompt topic difficulty n question_types) 3 1)
              = Inl e)
        \<or> (\<exists>a. snd (call_huggingface_api http (quiz_prompt topic difficulty n question_types) 3 1)
              = Inr a \<and> \<not> truthy a)
        \<longrightarrow> snd (generate_quiz_questions U http topic difficulty n question_types)
              = Inr (generate_fallback_questions topic n difficulty))
   \<and> (\<forall>response.
         snd (call_huggingface_api http (quiz_prompt topic difficulty n question_types) 3 1)
           = Inr (JStr response) \<and> response \<noteq> []
         \<longrightarrow> (\<exists>qs. snd (generate_quiz_questions U http topic difficulty n question_types) = Inr qs
                   \<and> int (length qs) = n))"
proof -
  have a: "int (length (generate_fallback_questions topic n difficulty)) = min n 3"
    using assms by (simp add: length_fallback_questions)
  have b: "(\<exists>e. snd (call_huggingface_api http (quiz_prompt topic difficulty n question_types) 3 1)
              = Inl e)
        \<or> (\<exists>a. snd (call_huggingface_api http (quiz_prompt topic difficulty n question_types) 3 1)
              = Inr a \<and> \<not> truthy a)
        \<longrightarrow> snd (generate_quiz_questions U http topic difficulty n question_types)
              = Inr (generate_fallback_questions topic n difficulty)"
    by (cases "call_huggingface_api http (quiz_prompt topic difficulty n question_types) 3 1")
       (auto simp: generate_quiz_questions_def generate_quiz_body_def)
  have c: "\<forall>response.
         snd (call_huggingface_api http (quiz_prompt topic difficulty n question_types) 3 1)
           = Inr (JStr response) \<and> response \<noteq> []
         \<longrightarrow> (\<exists>qs. snd (generate_quiz_questions U http topic difficulty n question_types) = Inr qs
                   \<and> int (length qs) = n)"
    using assms
    by (cases "call_huggingface_api http (quiz_prompt topic difficulty n question_types) 3 1")
       (auto simp: generate_quiz_questions_def generate_quiz_body_def length_parse_questions)
  show ?thesis using a b c by blast
qed

theorem fallback_question_counts_witness:
  "length (generate_fallback_questions (py ''Algebra'') 5 (py ''easy'')) = 3
   \<and> snd (generate_quiz_questions ascii always_fails (py ''Algebra'') (py ''easy'') 5
            [py ''multiple_choice''])
       = Inr (generate_fallback_questions (py ''Algebra'') 5 (py ''easy''))
   \<and> (\<exists>qs. snd (generate_quiz_questions ascii (answers_with (py ''What is the value of x when 2x = 4?''))
                   (py ''Algebra'') (py ''easy'') 5 [py ''multiple_choice'']) = Inr qs
            \<and> length qs = 5)"
proof -
  have n: "py ''What is the value of x when 2x = 4?'' \<noteq> []" by (simp add: py_def)
  have f: "snd (call_huggingface_api always_fails
                  (quiz_prompt (py ''Algebra'') (py ''easy'') 5 [py ''multiple_choice'']) 3 1)
           = Inl RequestException"
    by (simp add: call_always_fails)
  have g: "snd (call_huggingface_api (answers_with (py ''What is the value of x when 2x = 4?''))
                  (quiz_prompt (py ''Algebra'') (py ''easy'') 5 [py ''multiple_choice'']) 3 1)
           = Inr (JStr (py ''What is the value of x when 2x = 4?''))"
    by (simp add: call_answers_with)
  have one: "(1::int) \<le> 5" by simp
  show ?thesis
    using fallback_question_counts [OF one, of "py ''Algebra''" "py ''easy''" always_fails
            "[py ''multiple_choice'']" ascii]
          fallback_question_counts [OF one, of "py ''Algebra''" "py ''easy''"
            "answers_with (py ''What is the value of x when 2x = 4?'')"
            "[py ''multiple_choice'']" ascii]
          f g n
    by auto
qed

end
